theory Spec2Isabelle
  imports Complex_Main
begin

section \<open>The car wash simulation of \<^verbatim>\<open>car-wash.py\<close>\<close>

text \<open>
  The program simulates, second by second, one car washer and the queue of customers
  waiting for it. In this embedding Python's unbounded integers are \<open>int\<close>, an exception
  is a value \<open>Inl e\<close> of a sum type, and an object the program mutates is a record that
  the method takes and returns. A method that assigns no attribute (\<^verbatim>\<open>is_busy\<close>,
  \<^verbatim>\<open>average\<close>, \<^verbatim>\<open>number_of_values\<close>) is a function of the record alone.
\<close>

datatype error = ZeroDivisionError | IndexError

subsection \<open>The washer\<close>

text \<open>
  \<^verbatim>\<open>
  class Washer:
      def __init__(self, wash_time):
          self.wash_time = wash_time
          self.time_until_done = 0
      def is_busy(self):
          if self.time_until_done != 0: return True
          else: return False
      def start_washing(self):
          if self.is_busy() == False:
              self.time_until_done = self.wash_time
      def one_second(self):
          if self.time_until_done != 0:
              self.time_until_done = self.time_until_done - 1
  \<close>
\<close>

record washer =
  wash_time :: int
  time_until_done :: int

definition Washer :: "int \<Rightarrow> washer" where
  "Washer wt = \<lparr>wash_time = wt, time_until_done = 0\<rparr>"

definition is_busy :: "washer \<Rightarrow> bool" where
  "is_busy w = (if time_until_done w \<noteq> 0 then True else False)"

definition start_washing :: "washer \<Rightarrow> washer" where
  "start_washing w =
     (if is_busy w = False then w\<lparr>time_until_done := wash_time w\<rparr> else w)"

definition one_second :: "washer \<Rightarrow> washer" where
  "one_second w =
     (if time_until_done w \<noteq> 0 then w\<lparr>time_until_done := time_until_done w - 1\<rparr> else w)"

subsection \<open>The random source and the arrival generator\<close>

text \<open>
  \<^verbatim>\<open>random.random()\<close> reads and advances the process-wide generator. The generator is
  modelled by the sequence of values it is going to return, in call order; a call returns
  the head and leaves the rest. Python returns a float in \<open>[0, 1)\<close>, \<open>0.0\<close> included; a
  float is a rational number and \<^verbatim>\<open>>=\<close> compares the exact values, so the draws are
  \<open>real\<close> here.

  \<^verbatim>\<open>
  class ArrivalGenerator:
      def __init__(self, prob=0.5):
          self.probability = prob
      def query(self):
          while self.probability >= random.random():
              return True
  \<close>
  The loop condition is evaluated once: when it holds the method returns \<^verbatim>\<open>True\<close>, and
  when it does not the loop is left and the method ends without a \<^verbatim>\<open>return\<close>, so the
  call yields \<^verbatim>\<open>None\<close>.
\<close>

type_synonym rng = "nat \<Rightarrow> real"

definition random_random :: "rng \<Rightarrow> real \<times> rng" where
  "random_random g = (g 0, \<lambda>k. g (Suc k))"

datatype py_value = PyBool bool | PyNone

record arrival_generator =
  probability :: real

definition ArrivalGenerator :: "real \<Rightarrow> arrival_generator" where
  "ArrivalGenerator prob = \<lparr>probability = prob\<rparr>"

definition query :: "arrival_generator \<Rightarrow> rng \<Rightarrow> py_value \<times> rng" where
  "query a g =
     (case random_random g of (u, g') \<Rightarrow>
        (if probability a \<ge> u then PyBool True else PyNone, g'))"

subsection \<open>The average tracker\<close>

text \<open>
  \<^verbatim>\<open>
  class AverageTracker:
      def __init__(self):
          self.count = 0
          self.sum_ = 0
      def next_value(self, val):
          self.sum_ += val
          self.count += 1
      def average(self):
          return self.sum_ / self.count
      def number_of_values(self):
          return self.count
  \<close>
  The attribute \<^verbatim>\<open>sum_\<close> is the field \<open>sum_acc\<close> (a name cannot end in an underscore
  here). The simulation records differences of seconds, so the values are integers.
  Python's \<^verbatim>\<open>/\<close> on integers raises \<^verbatim>\<open>ZeroDivisionError\<close> for a zero divisor and
  otherwise returns the float nearest to the quotient; the model returns the quotient
  itself.
\<close>

record average_tracker =
  count :: int
  sum_acc :: int

definition AverageTracker :: average_tracker where
  "AverageTracker = \<lparr>count = 0, sum_acc = 0\<rparr>"

definition next_value :: "int \<Rightarrow> average_tracker \<Rightarrow> average_tracker" where
  "next_value val t = t\<lparr>sum_acc := sum_acc t + val, count := count t + 1\<rparr>"

definition average :: "average_tracker \<Rightarrow> error + real" where
  "average t =
     (if count t = 0 then Inl ZeroDivisionError
      else Inr (real_of_int (sum_acc t) / real_of_int (count t)))"

definition number_of_values :: "average_tracker \<Rightarrow> int" where
  "number_of_values t = count t"

subsection \<open>The queue\<close>

text \<open>
  The queue is a \<^verbatim>\<open>collections.deque\<close>, modelled by the list of its elements from left
  to right. \<^verbatim>\<open>appendleft\<close> adds on the left; \<^verbatim>\<open>pop\<close> removes and returns the
  rightmost element and raises \<^verbatim>\<open>IndexError\<close> on an empty deque.
\<close>

type_synonym deque = "int list"

definition appendleft :: "int \<Rightarrow> deque \<Rightarrow> deque" where
  "appendleft x d = x # d"

definition pop :: "deque \<Rightarrow> error + int \<times> deque" where
  "pop d = (if d = [] then Inl IndexError else Inr (last d, butlast d))"

subsection \<open>One simulation run\<close>

text \<open>
  \<^verbatim>\<open>
  def simulation(prob, simulation_time, wash_time):
      ws = Washer(wash_time)
      arg = ArrivalGenerator(prob)
      avg_wash_time = AverageTracker()
      wash_deque = deque()
      for current_second in range(simulation_time):
          if arg.query() == True:
              wash_deque.appendleft(current_second)
          if ws.is_busy() == False and len(wash_deque) != 0:
              timestamp = wash_deque.pop()
              avg_wash_time.next_value(current_second - timestamp)
              ws.start_washing()
          ws.one_second()
      avg_time = avg_wash_time.average()
      count = avg_wash_time.number_of_values()
      print(...)
      return count, avg_time
  \<close>
  The state of the loop is the washer, the tracker, the deque and the random source.
  The body is split into its three statements: \<open>arrival_step\<close> (the first \<^verbatim>\<open>if\<close>),
  \<open>dispatch_step\<close> (the second) and the final \<^verbatim>\<open>ws.one_second()\<close>, composed in
  \<open>loop_body\<close>. \<open>py_range n\<close> is \<^verbatim>\<open>range(n)\<close>, empty for \<open>n \<le> 0\<close>. The printed
  report is output only and is left out. A run returns the pair of the source together
  with the random source as the run leaves it.
\<close>

record sim_state =
  ws :: washer
  avg_wash_time :: average_tracker
  wash_deque :: deque
  rnd :: rng

definition arrival_step :: "arrival_generator \<Rightarrow> int \<Rightarrow> sim_state \<Rightarrow> sim_state" where
  "arrival_step arg current_second s =
     (case query arg (rnd s) of (r, g') \<Rightarrow>
        if r = PyBool True
        then s\<lparr>wash_deque := appendleft current_second (wash_deque s), rnd := g'\<rparr>
        else s\<lparr>rnd := g'\<rparr>)"

definition dispatch_step :: "int \<Rightarrow> sim_state \<Rightarrow> error + sim_state" where
  "dispatch_step current_second s =
     (if is_busy (ws s) = False \<and> length (wash_deque s) \<noteq> 0
      then (case pop (wash_deque s) of
              Inl e \<Rightarrow> Inl e
            | Inr (timestamp, d') \<Rightarrow>
                Inr (s\<lparr>wash_deque := d',
                       avg_wash_time := next_value (current_second - timestamp) (avg_wash_time s),
                       ws := start_washing (ws s)\<rparr>))
      else Inr s)"

definition loop_body :: "arrival_generator \<Rightarrow> int \<Rightarrow> sim_state \<Rightarrow> error + sim_state" where
  "loop_body arg current_second s =
     (case dispatch_step current_second (arrival_step arg current_second s) of
        Inl e \<Rightarrow> Inl e
      | Inr s' \<Rightarrow> Inr (s'\<lparr>ws := one_second (ws s')\<rparr>))"

definition py_range :: "int \<Rightarrow> int list" where
  "py_range n = map int [0..<nat n]"

fun for_loop :: "arrival_generator \<Rightarrow> int list \<Rightarrow> sim_state \<Rightarrow> error + sim_state" where
  "for_loop arg [] s = Inr s"
| "for_loop arg (t # ts) s =
     (case loop_body arg t s of Inl e \<Rightarrow> Inl e | Inr s' \<Rightarrow> for_loop arg ts s')"

definition simulation :: "real \<Rightarrow> int \<Rightarrow> int \<Rightarrow> rng \<Rightarrow> error + (int \<times> real) \<times> rng" where
  "simulation prob simulation_time wt g =
     (case for_loop (ArrivalGenerator prob) (py_range simulation_time)
             \<lparr>ws = Washer wt, avg_wash_time = AverageTracker, wash_deque = [], rnd = g\<rparr> of
        Inl e \<Rightarrow> Inl e
      | Inr s \<Rightarrow>
          (case average (avg_wash_time s) of
             Inl e \<Rightarrow> Inl e
           | Inr avg_time \<Rightarrow> Inr ((number_of_values (avg_wash_time s), avg_time), rnd s)))"

subsection \<open>The batch of ten thousand runs\<close>

text \<open>
  \<^verbatim>\<open>
  def ten_thousand_runs():
      counts = []
      averages = []
      for _ in range(10000):
          count, avg_time = simulation(0.004, 6000, 150)
          counts.append(count)
          averages.append(avg_time)
      return counts, averages
  \<close>
  \<open>runs_loop k\<close> is the loop with \<open>k\<close> iterations left; an exception of a run leaves the
  loop and the function. The float \<^verbatim>\<open>0.004\<close> is the one nearest to \<open>4/1000\<close>; the draws
  are multiples of \<open>2^-53\<close>, none of which lies between the two, so comparing a draw
  with \<open>4/1000\<close> gives what the source's comparison gives.
\<close>

fun runs_loop :: "nat \<Rightarrow> int list \<times> real list \<times> rng \<Rightarrow> error + int list \<times> real list \<times> rng" where
  "runs_loop 0 acc = Inr acc"
| "runs_loop (Suc k) (counts, averages, g) =
     (case simulation 0.004 6000 150 g of
        Inl e \<Rightarrow> Inl e
      | Inr ((cnt, avg_time), g') \<Rightarrow> runs_loop k (counts @ [cnt], averages @ [avg_time], g'))"

definition ten_thousand_runs :: "rng \<Rightarrow> error + (int list \<times> real list) \<times> rng" where
  "ten_thousand_runs g =
     (case runs_loop 10000 ([], [], g) of
        Inl e \<Rightarrow> Inl e
      | Inr (counts, averages, g') \<Rightarrow> Inr ((counts, averages), g'))"

subsection \<open>Concrete random sources\<close>

text \<open>
  \<open>const_rng u\<close> returns \<open>u\<close> at every call. \<open>first_tick_rng\<close> returns \<open>0\<close> at every
  6000th call, starting with the first, and \<open>1/2\<close> otherwise.
\<close>

definition const_rng :: "real \<Rightarrow> rng" where
  "const_rng u = (\<lambda>_. u)"

definition first_tick_rng :: rng where
  "first_tick_rng k = (if k mod 6000 = 0 then 0 else 1 / 2)"

section \<open>Properties\<close>

subsection \<open>The washer's countdown\<close>

lemma wash_time_one_second_pow: "wash_time ((one_second ^^ k) w) = wash_time w"
  by (induction k) (simp_all add: one_second_def)

lemma time_until_done_one_second_pow:
  "0 \<le> time_until_done w \<Longrightarrow>
     time_until_done ((one_second ^^ k) w) = max 0 (time_until_done w - int k)"
proof (induction k)
  case 0
  then show ?case by simp
next
  case (Suc k)
  then show ?case by (simp add: one_second_def max_def)
qed

text \<open>
  C5. For every wash time \<open>d > 0\<close>: a new washer is not busy; after \<open>start_washing\<close> it
  is busy, and after \<open>k\<close> calls of \<open>one_second\<close> it is still busy exactly when \<open>k < d\<close>,
  so it stops being busy on the \<open>d\<close>-th call and stays idle under further calls; a
  new \<open>start_washing\<close> on the idle washer makes it busy again.
\<close>

theorem washer_service_cycle:
  "0 < d \<Longrightarrow>
     \<not> is_busy (Washer d) \<and>
     (\<forall>k. is_busy ((one_second ^^ k) (start_washing (Washer d))) = (int k < d)) \<and>
     (\<forall>k. d \<le> int k \<longrightarrow>
        is_busy (start_washing ((one_second ^^ k) (start_washing (Washer d)))))"
proof -
  assume d: "0 < d"
  let ?w = "start_washing (Washer d)"
  have tud: "time_until_done ?w = d" and wt: "wash_time ?w = d"
    by (simp_all add: start_washing_def is_busy_def Washer_def)
  have cnt: "time_until_done ((one_second ^^ k) ?w) = max 0 (d - int k)" for k
    using time_until_done_one_second_pow [of ?w k] d tud by simp
  have fresh: "\<not> is_busy (Washer d)"
    by (simp add: is_busy_def Washer_def)
  have busy: "is_busy ((one_second ^^ k) ?w) = (int k < d)" for k
    using cnt [of k] by (simp add: is_busy_def max_def)
  have again: "is_busy (start_washing ((one_second ^^ k) ?w))" if "d \<le> int k" for k
  proof -
    have "time_until_done ((one_second ^^ k) ?w) = 0"
      using cnt [of k] that by (simp add: max_def)
    moreover have "wash_time ((one_second ^^ k) ?w) = d"
      by (simp add: wash_time_one_second_pow wt)
    ultimately show ?thesis
      using d by (simp add: start_washing_def is_busy_def)
  qed
  from fresh busy again show ?thesis by blast
qed

theorem washer_service_cycle_witness:
  "(0::int) < 3 \<and> \<not> is_busy (Washer 3) \<and>
   is_busy (start_washing (Washer 3)) \<and>
   is_busy ((one_second ^^ 2) (start_washing (Washer 3))) \<and>
   \<not> is_busy ((one_second ^^ 3) (start_washing (Washer 3))) \<and>
   \<not> is_busy ((one_second ^^ 5) (start_washing (Washer 3))) \<and>
   is_busy (start_washing ((one_second ^^ 5) (start_washing (Washer 3))))"
proof -
  have h: "(0::int) < 3" by simp
  note c = washer_service_cycle [OF h]
  from c have b: "is_busy ((one_second ^^ k) (start_washing (Washer 3))) = (int k < 3)" for k
    by blast
  from c have a: "(3::int) \<le> int 5 \<longrightarrow>
      is_busy (start_washing ((one_second ^^ 5) (start_washing (Washer 3))))"
    by blast
  from c have f: "\<not> is_busy (Washer 3)" by blast
  show ?thesis
    using f a b [of 0] b [of 2] b [of 3] b [of 5] by simp
qed

text \<open>
  C6. On a washer whose countdown is running (\<open>time_until_done > 0\<close>), \<open>start_washing\<close>
  leaves the whole state as it is: the countdown is neither reset nor extended and the
  wash time is untouched.
\<close>

theorem start_washing_busy_noop:
  "0 < time_until_done w \<Longrightarrow> start_washing w = w"
  by (simp add: start_washing_def is_busy_def)

theorem start_washing_busy_noop_witness:
  "(0::int) < time_until_done \<lparr>wash_time = 150, time_until_done = 7\<rparr> \<and>
   start_washing \<lparr>wash_time = 150, time_until_done = 7\<rparr>
     = \<lparr>wash_time = 150, time_until_done = 7\<rparr>"
  using start_washing_busy_noop [of "\<lparr>wash_time = 150, time_until_done = 7\<rparr>"] by simp

subsection \<open>What a query returns\<close>

lemma query_eq:
  "query a g = (if g 0 \<le> probability a then PyBool True else PyNone, \<lambda>k. g (Suc k))"
  by (simp add: query_def random_random_def)

lemma query_result:
  "fst (query a g) = (if g 0 \<le> probability a then PyBool True else PyNone)"
  by (simp add: query_eq)

lemma query_never_False: "fst (query a g) \<noteq> PyBool False"
  by (simp add: query_result)

text \<open>
  C1. The claim is that \<open>query\<close> returns true exactly when the draw is strictly below the
  probability, so never for probability \<open>0\<close>. The source compares with \<^verbatim>\<open>>=\<close>: with
  probability \<open>0\<close> and a draw of \<open>0.0\<close> the call returns \<^verbatim>\<open>True\<close>.
\<close>

theorem query_zero_probability_returns_True:
  "fst (query (ArrivalGenerator 0) (const_rng 0)) = PyBool True"
  by (simp add: query_result ArrivalGenerator_def const_rng_def)

text \<open>
  C2. The claim is that \<open>query\<close> returns the value false whenever it does not return
  true. The source has no \<^verbatim>\<open>return False\<close>: with probability \<open>1/2\<close> and a draw of
  \<open>9/10\<close> the call returns \<^verbatim>\<open>None\<close>, which is not \<^verbatim>\<open>False\<close>.
\<close>

theorem query_miss_returns_None:
  "fst (query (ArrivalGenerator (1 / 2)) (const_rng (9 / 10))) = PyNone \<and>
   fst (query (ArrivalGenerator (1 / 2)) (const_rng (9 / 10))) \<noteq> PyBool False"
  by (simp add: query_result ArrivalGenerator_def const_rng_def)

subsection \<open>The average\<close>



subsection \<open>The loop body, statement by statement\<close>

lemma arrival_step_eq:
  "arrival_step arg t s =
     (if rnd s 0 \<le> probability arg
      then s\<lparr>wash_deque := t # wash_deque s, rnd := \<lambda>k. rnd s (Suc k)\<rparr>
      else s\<lparr>rnd := \<lambda>k. rnd s (Suc k)\<rparr>)"
  by (simp add: arrival_step_def query_eq appendleft_def)

lemma arrival_step_fields:
  "ws (arrival_step arg t s) = ws s"
  "avg_wash_time (arrival_step arg t s) = avg_wash_time s"
  "rnd (arrival_step arg t s) = (\<lambda>k. rnd s (Suc k))"
  "wash_deque (arrival_step arg t s) =
     (if rnd s 0 \<le> probability arg then t # wash_deque s else wash_deque s)"
  by (simp_all add: arrival_step_eq)

lemma dispatch_step_eq:
  "dispatch_step t s =
     Inr (if \<not> is_busy (ws s) \<and> wash_deque s \<noteq> []
          then s\<lparr>wash_deque := butlast (wash_deque s),
                 avg_wash_time := next_value (t - last (wash_deque s)) (avg_wash_time s),
                 ws := start_washing (ws s)\<rparr>
          else s)"
  by (simp add: dispatch_step_def pop_def)

lemma loop_body_eq:
  "loop_body arg t s =
     Inr (if \<not> is_busy (ws s) \<and> wash_deque (arrival_step arg t s) \<noteq> []
          then (arrival_step arg t s)
                 \<lparr>wash_deque := butlast (wash_deque (arrival_step arg t s)),
                  avg_wash_time :=
                    next_value (t - last (wash_deque (arrival_step arg t s))) (avg_wash_time s),
                  ws := one_second (start_washing (ws s))\<rparr>
          else (arrival_step arg t s)\<lparr>ws := one_second (ws s)\<rparr>)"
  by (simp add: loop_body_def dispatch_step_eq arrival_step_fields)

lemma loop_body_total: "\<exists>s'. loop_body arg t s = Inr s'"
  by (simp add: loop_body_eq)

lemma loop_body_rnd: "loop_body arg t s = Inr s' \<Longrightarrow> rnd s' = (\<lambda>k. rnd s (Suc k))"
  by (auto simp add: loop_body_eq arrival_step_fields split: if_splits)

lemma for_loop_append:
  "for_loop arg (xs @ ys) s =
     (case for_loop arg xs s of Inl e \<Rightarrow> Inl e | Inr s' \<Rightarrow> for_loop arg ys s')"
  by (induction xs arbitrary: s) (simp_all split: sum.splits)

lemma for_loop_total: "\<exists>s'. for_loop arg ts s = Inr s'"
proof (induction ts arbitrary: s)
  case Nil
  show ?case by simp
next
  case (Cons t ts)
  obtain s1 where s1: "loop_body arg t s = Inr s1"
    using loop_body_total by blast
  with Cons [of s1] show ?case by simp
qed

lemma for_loop_rnd:
  "for_loop arg ts s = Inr s' \<Longrightarrow> rnd s' = (\<lambda>k. rnd s (length ts + k))"
proof (induction ts arbitrary: s)
  case Nil
  then show ?case by simp
next
  case (Cons t ts)
  obtain s1 where s1: "loop_body arg t s = Inr s1"
    using loop_body_total by blast
  with Cons.prems have "for_loop arg ts s1 = Inr s'" by simp
  then have "rnd s' = (\<lambda>k. rnd s1 (length ts + k))" by (rule Cons.IH)
  then show ?case by (simp add: loop_body_rnd [OF s1])
qed


lemma py_range_Cons: "0 < n \<Longrightarrow> py_range n = 0 # map int [1..<nat n]"
  by (simp add: py_range_def upt_conv_Cons)

lemma length_py_range: "length (py_range n) = nat n"
  by (simp add: py_range_def)

text \<open>
  A run of \<open>n\<close> seconds passes through second \<open>t < n\<close>: the loop is the loop over the
  seconds before \<open>t\<close>, then the body at \<open>t\<close>, then the loop over the seconds after it.
\<close>

lemma upt_split_at: "t < n \<Longrightarrow> [0..<n] = [0..<t] @ t # [Suc t..<n]"
proof -
  assume t: "t < n"
  then have "[0..<t + (n - t)] = [0..<t] @ [t..<t + (n - t)]"
    by (intro upt_add_eq_append) simp
  with t have "[0..<n] = [0..<t] @ [t..<n]" by simp
  with t show ?thesis by (simp add: upt_conv_Cons)
qed

lemma py_range_split:
  assumes "0 \<le> t" and "t < n"
  shows "py_range n = py_range t @ t # map int [Suc (nat t)..<nat n]"
proof -
  from assms have "nat t < nat n" by simp
  then have "[0..<nat n] = [0..<nat t] @ nat t # [Suc (nat t)..<nat n]"
    by (rule upt_split_at)
  then show ?thesis
    using assms(1) by (simp add: py_range_def)
qed

lemma for_loop_through_second:
  assumes "0 \<le> t" and "t < n" and "for_loop arg (py_range t) s0 = Inr s"
    and "loop_body arg t s = Inr s'"
  shows "for_loop arg (py_range n) s0 = for_loop arg (map int [Suc (nat t)..<nat n]) s'"
  using assms(3,4) by (simp add: py_range_split [OF assms(1,2)] for_loop_append)

lemma simulation_eq:
  "simulation prob n wt g =
     (case for_loop (ArrivalGenerator prob) (py_range n)
             \<lparr>ws = Washer wt, avg_wash_time = AverageTracker, wash_deque = [], rnd = g\<rparr> of
        Inl e \<Rightarrow> Inl e
      | Inr s \<Rightarrow>
          if count (avg_wash_time s) = 0 then Inl ZeroDivisionError
          else Inr ((count (avg_wash_time s),
                     real_of_int (sum_acc (avg_wash_time s)) / real_of_int (count (avg_wash_time s))),
                    \<lambda>k. g (nat n + k)))"
proof -
  obtain s where s: "for_loop (ArrivalGenerator prob) (py_range n)
             \<lparr>ws = Washer wt, avg_wash_time = AverageTracker, wash_deque = [], rnd = g\<rparr> = Inr s"
    using for_loop_total by blast
  from for_loop_rnd [OF s] have "rnd s = (\<lambda>k. g (nat n + k))"
    by (simp add: length_py_range)
  with s show ?thesis
    by (simp add: simulation_def average_def number_of_values_def)
qed

lemma simulation_never_returns_zero: "simulation prob n wt g \<noteq> Inr ((0, a), g')"
  by (simp add: simulation_eq split: sum.splits)

subsection \<open>The queue is first in, first out\<close>







subsection \<open>Runs without arrivals and runs with one arrival\<close>

lemma loop_body_no_arrival:
  assumes "probability arg < rnd s 0" and "wash_deque s = []"
  shows "loop_body arg t s = Inr (s\<lparr>rnd := \<lambda>k. rnd s (Suc k), ws := one_second (ws s)\<rparr>)"
  using assms by (simp add: loop_body_eq arrival_step_eq)

lemma for_loop_no_arrival:
  assumes "\<forall>k<length ts. probability arg < rnd s k" and "wash_deque s = []"
    and "for_loop arg ts s = Inr s'"
  shows "avg_wash_time s' = avg_wash_time s \<and> wash_deque s' = []"
  using assms
proof (induction ts arbitrary: s)
  case Nil
  then show ?case by simp
next
  case (Cons t ts)
  let ?s1 = "s\<lparr>rnd := \<lambda>k. rnd s (Suc k), ws := one_second (ws s)\<rparr>"
  from Cons.prems(1) have "probability arg < rnd s 0" by auto
  then have b: "loop_body arg t s = Inr ?s1"
    using Cons.prems(2) by (rule loop_body_no_arrival)
  with Cons.prems(3) have r: "for_loop arg ts ?s1 = Inr s'" by simp
  have d: "\<forall>k<length ts. probability arg < rnd ?s1 k"
    using Cons.prems(1) by auto
  have "wash_deque ?s1 = []" using Cons.prems(2) by simp
  from Cons.IH [OF d this r] show ?case by simp
qed

lemma simulation_no_arrival:
  assumes "\<forall>k<nat n. prob < g k"
  shows "simulation prob n wt g = Inl ZeroDivisionError"
proof -
  let ?s0 = "\<lparr>ws = Washer wt, avg_wash_time = AverageTracker, wash_deque = [], rnd = g\<rparr>"
  obtain s where s: "for_loop (ArrivalGenerator prob) (py_range n) ?s0 = Inr s"
    using for_loop_total by blast
  have "\<forall>k<length (py_range n). probability (ArrivalGenerator prob) < rnd ?s0 k"
    using assms by (simp add: length_py_range ArrivalGenerator_def)
  from for_loop_no_arrival [OF this _ s] have "avg_wash_time s = AverageTracker"
    by simp
  with s show ?thesis
    by (simp add: simulation_eq AverageTracker_def)
qed

lemma simulation_only_first_arrival:
  assumes "0 < n" and "g 0 \<le> prob" and "\<forall>k<nat n - 1. prob < g (Suc k)"
  shows "simulation prob n wt g = Inr ((1, 0), \<lambda>k. g (nat n + k))"
proof -
  let ?arg = "ArrivalGenerator prob"
  let ?s0 = "\<lparr>ws = Washer wt, avg_wash_time = AverageTracker, wash_deque = [], rnd = g\<rparr>"
  let ?s1 = "\<lparr>ws = one_second (start_washing (Washer wt)),
              avg_wash_time = next_value 0 AverageTracker, wash_deque = [],
              rnd = \<lambda>k. g (Suc k)\<rparr>"
  have b: "loop_body ?arg 0 ?s0 = Inr ?s1"
    using assms(2)
    by (simp add: loop_body_eq arrival_step_eq ArrivalGenerator_def is_busy_def Washer_def)
  obtain s where s: "for_loop ?arg (map int [1..<nat n]) ?s1 = Inr s"
    using for_loop_total by blast
  have "\<forall>k<length (map int [1..<nat n]). probability ?arg < rnd ?s1 k"
    using assms(3) by (simp add: ArrivalGenerator_def)
  from for_loop_no_arrival [OF this _ s] have a: "avg_wash_time s = next_value 0 AverageTracker"
    by simp
  have "for_loop ?arg (py_range n) ?s0 = Inr s"
    using b s assms(1) by (simp add: py_range_Cons)
  with a show ?thesis
    by (simp add: simulation_eq next_value_def AverageTracker_def)
qed

text \<open>
  C3. The claim is that \<open>simulation(0, 100, 10)\<close> returns with a served count of \<open>0\<close>. With
  every draw \<open>1/2\<close> nobody arrives, the tracker is empty at the end of the loop and
  \<^verbatim>\<open>avg_wash_time.average()\<close> raises \<^verbatim>\<open>ZeroDivisionError\<close>: the run returns nothing.
  (By \<open>simulation_never_returns_zero\<close> no run ever returns the count \<open>0\<close>.)
\<close>

theorem simulation_no_customer_raises:
  "simulation 0 100 10 (const_rng (1 / 2)) = Inl ZeroDivisionError"
  by (rule simulation_no_arrival) (simp add: const_rng_def)

text \<open>
  C8. The body runs arrival, then dispatch, then \<open>one_second\<close>: a customer who arrives
  at second \<open>t\<close> while the washer is idle and the deque is empty is served in that same
  second with waiting time \<open>0\<close>, and the washer started for the customer has already
  counted one second down when the body ends. In particular \<open>simulation(1, 1, 100)\<close>, for
  any draw in \<open>[0, 1)\<close>, returns the count \<open>1\<close> and the average waiting time \<open>0\<close>.
\<close>

theorem same_tick_dispatch:
  "(\<not> is_busy (ws s) \<and> wash_deque s = [] \<and> rnd s 0 \<le> probability arg \<longrightarrow>
      loop_body arg t s =
        Inr (s\<lparr>rnd := \<lambda>k. rnd s (Suc k),
               avg_wash_time := next_value 0 (avg_wash_time s),
               ws := one_second (start_washing (ws s))\<rparr>)) \<and>
   (0 \<le> g 0 \<and> g 0 < 1 \<longrightarrow> simulation 1 1 100 g = Inr ((1, 0), \<lambda>k. g (Suc k)))"
proof (intro conjI impI)
  assume "\<not> is_busy (ws s) \<and> wash_deque s = [] \<and> rnd s 0 \<le> probability arg"
  then show "loop_body arg t s =
        Inr (s\<lparr>rnd := \<lambda>k. rnd s (Suc k),
               avg_wash_time := next_value 0 (avg_wash_time s),
               ws := one_second (start_washing (ws s))\<rparr>)"
    by (simp add: loop_body_eq arrival_step_eq)
next
  assume g: "0 \<le> g 0 \<and> g 0 < 1"
  have "simulation 1 1 100 g = Inr ((1, 0), \<lambda>k. g (nat 1 + k))"
    by (rule simulation_only_first_arrival) (use g in simp_all)
  then show "simulation 1 1 100 g = Inr ((1, 0), \<lambda>k. g (Suc k))"
    by simp
qed

theorem same_tick_dispatch_witness:
  "\<not> is_busy (Washer 100) \<and> const_rng 0 0 \<le> probability (ArrivalGenerator 1) \<and>
   loop_body (ArrivalGenerator 1) 0
     \<lparr>ws = Washer 100, avg_wash_time = AverageTracker, wash_deque = [], rnd = const_rng 0\<rparr>
     = Inr \<lparr>ws = \<lparr>wash_time = 100, time_until_done = 99\<rparr>,
            avg_wash_time = \<lparr>count = 1, sum_acc = 0\<rparr>, wash_deque = [], rnd = const_rng 0\<rparr> \<and>
   (0::real) \<le> const_rng 0 0 \<and> const_rng 0 0 < (1::real) \<and>
   simulation 1 1 100 (const_rng 0) = Inr ((1, 0), const_rng 0)"
proof -
  have r: "(\<lambda>k. const_rng 0 (Suc k)) = const_rng 0"
    by (simp add: const_rng_def)
  show ?thesis
    using same_tick_dispatch
      [of "\<lparr>ws = Washer 100, avg_wash_time = AverageTracker, wash_deque = [], rnd = const_rng 0\<rparr>"
          "ArrivalGenerator 1" 0 "const_rng 0"]
    by (simp add: r is_busy_def Washer_def ArrivalGenerator_def start_washing_def one_second_def
        next_value_def AverageTracker_def)
       (simp add: const_rng_def)
qed

subsection \<open>The number of customers served\<close>

lemma loop_body_count:
  "loop_body arg t s = Inr s' \<Longrightarrow>
     count (avg_wash_time s) \<le> count (avg_wash_time s') \<and>
     count (avg_wash_time s') \<le> count (avg_wash_time s) + 1"
  by (auto simp add: loop_body_eq arrival_step_fields next_value_def split: if_splits)

lemma for_loop_count:
  "for_loop arg ts s = Inr s' \<Longrightarrow>
     count (avg_wash_time s) \<le> count (avg_wash_time s') \<and>
     count (avg_wash_time s') \<le> count (avg_wash_time s) + int (length ts)"
proof (induction ts arbitrary: s)
  case Nil
  then show ?case by simp
next
  case (Cons t ts)
  obtain s1 where s1: "loop_body arg t s = Inr s1"
    using loop_body_total by blast
  with Cons.prems have "for_loop arg ts s1 = Inr s'" by simp
  from Cons.IH [OF this] loop_body_count [OF s1] show ?case by simp
qed

lemma simulation_three_ticks:
  "simulation 1 3 2 (const_rng 0) = Inr ((2, 1 / 2), const_rng 0)"
proof -
  have r: "(\<lambda>k. const_rng 0 (Suc k)) = const_rng 0" "const_rng 0 0 = 0"
    by (simp_all add: const_rng_def)
  have p: "py_range 3 = [0, 1, 2]"
    by (simp add: py_range_def upt_conv_Cons)
  show ?thesis
    by (simp add: simulation_def p loop_body_eq arrival_step_eq ArrivalGenerator_def Washer_def
        is_busy_def start_washing_def one_second_def next_value_def AverageTracker_def
        average_def number_of_values_def r)
qed

text \<open>
  C10. A run over \<open>simulation_time \<ge> 0\<close> seconds that returns has served at most
  \<open>simulation_time\<close> customers, whatever the probability, the wash time and the draws.
\<close>

theorem served_at_most_ticks:
  "0 \<le> simulation_time \<Longrightarrow> simulation prob simulation_time wt g = Inr ((c, a), g') \<Longrightarrow>
     c \<le> simulation_time"
proof -
  assume n: "0 \<le> simulation_time" and r: "simulation prob simulation_time wt g = Inr ((c, a), g')"
  obtain s where s: "for_loop (ArrivalGenerator prob) (py_range simulation_time)
             \<lparr>ws = Washer wt, avg_wash_time = AverageTracker, wash_deque = [], rnd = g\<rparr> = Inr s"
    using for_loop_total by blast
  from r s have c: "c = count (avg_wash_time s)"
    by (simp add: simulation_eq split: if_splits)
  from for_loop_count [OF s] have "count (avg_wash_time s) \<le> int (nat simulation_time)"
    by (simp add: AverageTracker_def length_py_range)
  with n c show ?thesis by simp
qed

theorem served_at_most_ticks_witness:
  "(0::int) \<le> 3 \<and> simulation 1 3 2 (const_rng 0) = Inr ((2, 1 / 2), const_rng 0) \<and>
   (2::int) \<le> 3"
  using served_at_most_ticks [of 3 1 2 "const_rng 0" 2 "1 / 2" "const_rng 0"]
    simulation_three_ticks
  by simp

subsection \<open>The batch\<close>

lemma simulation_first_tick_rng:
  "simulation 0.004 6000 150 first_tick_rng = Inr ((1, 0), first_tick_rng)"
proof -
  have "simulation 0.004 6000 150 first_tick_rng
          = Inr ((1, 0), \<lambda>k. first_tick_rng (nat 6000 + k))"
  proof (rule simulation_only_first_arrival)
    show "(0::int) < 6000" by simp
    show "first_tick_rng 0 \<le> 0.004" by (simp add: first_tick_rng_def)
    show "\<forall>k<nat 6000 - 1. 0.004 < first_tick_rng (Suc k)"
    proof (intro allI impI)
      fix k :: nat
      assume "k < nat 6000 - 1"
      then have "Suc k mod 6000 \<noteq> 0" by simp
      then show "0.004 < first_tick_rng (Suc k)"
        by (simp add: first_tick_rng_def)
    qed
  qed
  moreover have "(\<lambda>k. first_tick_rng (nat 6000 + k)) = first_tick_rng"
    by (rule ext) (simp add: first_tick_rng_def)
  ultimately show ?thesis by simp
qed

lemma runs_loop_first_tick_rng:
  "runs_loop n (cs, avs, first_tick_rng)
     = Inr (cs @ replicate n 1, avs @ replicate n 0, first_tick_rng)"
proof (induction n arbitrary: cs avs)
  case 0
  show ?case by simp
next
  case (Suc n)
  have "runs_loop (Suc n) (cs, avs, first_tick_rng)
          = runs_loop n (cs @ [1], avs @ [0], first_tick_rng)"
    by (simp only: runs_loop.simps simulation_first_tick_rng sum.case prod.case)
  then show ?case
    by (simp add: Suc.IH replicate_app_Cons_same)
qed

lemma ten_thousand_runs_first_tick_rng:
  "ten_thousand_runs first_tick_rng
     = Inr ((replicate 10000 1, replicate 10000 0), first_tick_rng)"
  by (simp add: ten_thousand_runs_def runs_loop_first_tick_rng)

lemma ten_thousand_runs_raises:
  "ten_thousand_runs (const_rng (1 / 2)) = Inl ZeroDivisionError"
proof -
  have "simulation 0.004 6000 150 (const_rng (1 / 2)) = Inl ZeroDivisionError"
    by (rule simulation_no_arrival) (simp add: const_rng_def)
  moreover have "(10000::nat) = Suc 9999" by simp
  ultimately have "runs_loop 10000 ([], [], const_rng (1 / 2)) = Inl ZeroDivisionError"
    by (simp only: runs_loop.simps sum.case)
  then show ?thesis by (simp add: ten_thousand_runs_def)
qed

lemma runs_loop_spec:
  assumes "runs_loop n (cs, avs, g) = Inr (cs', avs', g')"
  shows "\<exists>cs2 avs2. cs' = cs @ cs2 \<and> avs' = avs @ avs2 \<and> length cs2 = n \<and> length avs2 = n \<and>
           g' = (\<lambda>k. g (n * 6000 + k)) \<and>
           (\<forall>i<n. simulation 0.004 6000 150 (\<lambda>k. g (i * 6000 + k))
                     = Inr ((cs2 ! i, avs2 ! i), \<lambda>k. g (Suc i * 6000 + k)))"
  using assms
proof (induction n arbitrary: cs avs g)
  case 0
  then show ?case by simp
next
  case (Suc n)
  from Suc.prems obtain c a g1 where
    sim: "simulation 0.004 6000 150 g = Inr ((c, a), g1)"
    and rest: "runs_loop n (cs @ [c], avs @ [a], g1) = Inr (cs', avs', g')"
    by (auto split: sum.splits)
  from sim have g1: "g1 = (\<lambda>k. g (6000 + k))"
    by (auto simp add: simulation_eq split: sum.splits if_splits)
  from Suc.IH [OF rest] obtain cs2 avs2 where
    ih: "cs' = (cs @ [c]) @ cs2" "avs' = (avs @ [a]) @ avs2" "length cs2 = n" "length avs2 = n"
      "g' = (\<lambda>k. g1 (n * 6000 + k))"
      "\<forall>i<n. simulation 0.004 6000 150 (\<lambda>k. g1 (i * 6000 + k))
                = Inr ((cs2 ! i, avs2 ! i), \<lambda>k. g1 (Suc i * 6000 + k))"
    by blast
  have shift: "(\<lambda>k. g1 (i * 6000 + k)) = (\<lambda>k. g (Suc i * 6000 + k))" for i
    by (rule ext) (simp add: g1 add.assoc)
  have all: "\<forall>i<Suc n. simulation 0.004 6000 150 (\<lambda>k. g (i * 6000 + k))
                = Inr (((c # cs2) ! i, (a # avs2) ! i), \<lambda>k. g (Suc i * 6000 + k))"
  proof (intro allI impI)
    fix i
    assume i: "i < Suc n"
    show "simulation 0.004 6000 150 (\<lambda>k. g (i * 6000 + k))
            = Inr (((c # cs2) ! i, (a # avs2) ! i), \<lambda>k. g (Suc i * 6000 + k))"
    proof (cases i)
      case 0
      with sim g1 show ?thesis by simp
    next
      case (Suc j)
      with i have "j < n" by simp
      with ih(6) have "simulation 0.004 6000 150 (\<lambda>k. g1 (j * 6000 + k))
                = Inr ((cs2 ! j, avs2 ! j), \<lambda>k. g1 (Suc j * 6000 + k))"
        by blast
      then show ?thesis
        by (simp only: shift Suc nth_Cons_Suc)
    qed
  qed
  have "cs' = cs @ (c # cs2)" "avs' = avs @ (a # avs2)"
    "length (c # cs2) = Suc n" "length (a # avs2) = Suc n"
    "g' = (\<lambda>k. g (Suc n * 6000 + k))"
    using ih(1-5) shift [of n] by simp_all
  with all show ?case by blast
qed

text \<open>
  C9, as stated: the batch, asked for a number of runs, returns two sequences of that
  length. The function takes no number of runs: where it returns, both sequences have
  length 10000, not for instance 100; and where one run serves nobody (every draw \<open>1/2\<close>)
  it returns no sequences at all, the run's \<^verbatim>\<open>ZeroDivisionError\<close> leaving the batch.
\<close>

theorem ten_thousand_runs_counterexample:
  "ten_thousand_runs first_tick_rng
     = Inr ((replicate 10000 1, replicate 10000 0), first_tick_rng) \<and>
   length (replicate 10000 (1::int)) \<noteq> 100 \<and>
   length (replicate 10000 (0::real)) \<noteq> 100 \<and>
   ten_thousand_runs (const_rng (1 / 2)) = Inl ZeroDivisionError"
  by (simp add: ten_thousand_runs_first_tick_rng ten_thousand_runs_raises)

text \<open>
  C9, amended: the batch always makes 10000 runs with probability 0.004, 6000 seconds
  and wash time 150. Whenever it returns, the two sequences have length exactly 10000
  and, for every \<open>i < 10000\<close>, their \<open>i\<close>-th entries are the count and the average
  returned by the \<open>i\<close>-th run, the run that consumes the draws \<open>6000 * i\<close> up to
  \<open>6000 * i + 5999\<close>.
\<close>

theorem ten_thousand_runs_aligned:
  assumes "ten_thousand_runs g = Inr ((counts, averages), g')"
  shows "length counts = 10000 \<and> length averages = 10000 \<and>
         (\<forall>i<10000. simulation 0.004 6000 150 (\<lambda>k. g (i * 6000 + k))
                       = Inr ((counts ! i, averages ! i), \<lambda>k. g (Suc i * 6000 + k)))"
proof -
  from assms have "runs_loop 10000 ([], [], g) = Inr (counts, averages, g')"
    by (auto simp add: ten_thousand_runs_def split: sum.splits)
  from runs_loop_spec [OF this] show ?thesis by auto
qed

theorem ten_thousand_runs_aligned_witness:
  "ten_thousand_runs first_tick_rng
     = Inr ((replicate 10000 1, replicate 10000 0), first_tick_rng) \<and>
   length (replicate 10000 (1::int)) = 10000 \<and> length (replicate 10000 (0::real)) = 10000 \<and>
   (42::nat) < 10000 \<and>
   simulation 0.004 6000 150 (\<lambda>k. first_tick_rng (42 * 6000 + k))
     = Inr ((replicate 10000 1 ! 42, replicate 10000 0 !  42),
            \<lambda>k. first_tick_rng (Suc 42 * 6000 + k))"
proof -
  note w = ten_thousand_runs_aligned [OF ten_thousand_runs_first_tick_rng]
  from w have "(42::nat) < 10000 \<longrightarrow>
    simulation 0.004 6000 150 (\<lambda>k. first_tick_rng (42 * 6000 + k))
     = Inr ((replicate 10000 1 ! 42, replicate 10000 0 !  42),
            \<lambda>k. first_tick_rng (Suc 42 * 6000 + k))"
    by blast
  then show ?thesis
    using ten_thousand_runs_first_tick_rng by simp
qed

end
